theory Spec2Isabelle
  imports Main "HOL-Library.Char_ord" "HOL-Library.List_Lexorder" "HOL-Library.Product_Lexorder"
begin

section \<open>Python values shared by the modules\<close>

text \<open>
  An \<open>Optional[str]\<close> is a \<open>string option\<close>. Python's truth test on it is false for
  \<open>None\<close> and for the empty string; \<open>a or b\<close> yields \<open>a\<close> when \<open>a\<close> is true and
  \<open>b\<close> otherwise.
\<close>

definition truthy :: "string option \<Rightarrow> bool" where
  "truthy v = (case v of None \<Rightarrow> False | Some s \<Rightarrow> s \<noteq> [])"

definition py_or :: "string option \<Rightarrow> string option \<Rightarrow> string option" where
  "py_or a b = (if truthy a then a else b)"

text \<open>
  An exception raised inside a library (PyGithub, pandas): its class name and its
  \<open>str()\<close>. The first constructor is for a class that derives from \<open>Exception\<close>
  (a missing repository is \<open>Exception ''UnknownObjectException'' ''404 ...''\<close>), the second
  for a class that derives from \<open>BaseException\<close> only (\<open>KeyboardInterrupt\<close>,
  \<open>SystemExit\<close>). A clause \<open>except Exception\<close> catches the first kind alone, a bare
  \<open>except\<close> catches both.
\<close>

datatype exn =
    Exception (exn_class: string) (exn_str: string)
  | BaseException (exn_class: string) (exn_str: string)

fun is_Exception :: "exn \<Rightarrow> bool" where
  "is_Exception (Exception c s) = True"
| "is_Exception (BaseException c s) = False"

text \<open>
  What a function of this repository raises: a \<open>ValueError\<close> or \<open>KeyError\<close> with its
  message, or a library exception that it lets through.
\<close>

datatype py_error = ValueError string | KeyError string | Propagated exn

text \<open>The decimal digits of a number, as \<open>str\<close> and the f-strings print it.\<close>

fun str_nat :: "nat \<Rightarrow> string" where
  "str_nat n =
     (if n < 10 then [char_of (48 + n)]
      else str_nat (n div 10) @ [char_of (48 + n mod 10)])"

declare str_nat.simps [simp del]

section \<open>tutorial\_github/utils.py: GitHub API setup\<close>

text \<open>
  The two constructors of the vendor SDK that \<open>__init__\<close> calls, \<open>Auth.Token(token)\<close> and
  \<open>Github(base_url=base_url, auth=auth)\<close> (\<open>Github(auth=auth)\<close> is \<open>Github None auth\<close>),
  are parameters: each returns its object or raises. PyGithub's \<open>Github\<close> raises
  \<open>AssertionError\<close> for a base URL whose scheme is neither \<open>http\<close> nor \<open>https\<close>.
\<close>

record ('a, 'g) sdk =
  Auth_Token :: "string \<Rightarrow> exn + 'a"
  Github :: "string option \<Rightarrow> 'a \<Rightarrow> exn + 'g"

record 'g GitHubAPI =
  access_token :: string
  github :: 'g

text \<open>
  \<open>GitHubAPI.__init__\<close>. \<open>environ\<close> is the process environment read by \<open>os.getenv\<close>.
  An exception of a vendor constructor leaves \<open>__init__\<close> as it is.
\<close>

definition token_required_message :: string where
  "token_required_message =
     ''GitHub Access Token is required. Set it as an environment variable or pass it explicitly.''"

definition GitHubAPI_init ::
  "('a, 'g) sdk \<Rightarrow> (string \<rightharpoonup> string) \<Rightarrow> string option \<Rightarrow> string option \<Rightarrow>
   py_error + 'g GitHubAPI" where
  "GitHubAPI_init vendor environ token base_url =
     (case py_or token (environ ''GITHUB_ACCESS_TOKEN'') of
        None \<Rightarrow> Inl (ValueError token_required_message)
      | Some tok \<Rightarrow>
          if tok = [] then Inl (ValueError token_required_message)
          else
            (case Auth_Token vendor tok of
               Inl e \<Rightarrow> Inl (Propagated e)
             | Inr auth \<Rightarrow>
                 (case (if truthy base_url then Github vendor base_url auth
                        else Github vendor None auth) of
                    Inl e \<Rightarrow> Inl (Propagated e)
                  | Inr g \<Rightarrow> Inr \<lparr>access_token = tok, github = g\<rparr>)))"

definition get_client :: "'g GitHubAPI \<Rightarrow> 'g" where
  "get_client self = github self"

section \<open>tutorial\_github/utils.py: utility APIs\<close>

text \<open>
  The PyGithub client as the utility functions see it: the outcome of each call, either
  the object returned or the exception raised. A repository carries its name and the
  outcome of listing its contributors (their logins); an owner (organization or user)
  carries the outcome of listing its repositories. Listing is paginated and fetched
  while the list comprehension iterates, so it can raise as well.
\<close>

record Repository =
  name :: string
  get_contributors :: "exn + string list"

record Owner =
  get_repos :: "exn + Repository list"

record Github_client =
  get_organization :: "string \<Rightarrow> exn + Owner"
  get_user :: "string \<Rightarrow> exn + Owner"
  get_repo :: "string \<Rightarrow> exn + Repository"

record repo_names_result =
  owner :: string
  repositories :: "string list"

text \<open>
  \<open>get_repo_names\<close>: the two nested \<open>try\<close> blocks have bare \<open>except\<close> clauses, so any
  exception of the first lookup leads to the second and any exception of the second to
  the \<open>ValueError\<close>. The listing of the repositories is outside both blocks.
\<close>

definition neither_message :: "string \<Rightarrow> string" where
  "neither_message org_or_user_name =
     [CHR 0x27] @ org_or_user_name @ [CHR 0x27] @
     '' is neither a valid GitHub user nor organization.''"

definition get_repo_names :: "Github_client \<Rightarrow> string \<Rightarrow> py_error + repo_names_result" where
  "get_repo_names client org_or_user_name =
     (case (case get_organization client org_or_user_name of
              Inr org \<Rightarrow> Inr org
            | Inl _ \<Rightarrow>
                (case get_user client org_or_user_name of
                   Inr usr \<Rightarrow> Inr usr
                 | Inl _ \<Rightarrow> Inl (ValueError (neither_message org_or_user_name)))) of
        Inl err \<Rightarrow> Inl err
      | Inr ownr \<Rightarrow>
          (case get_repos ownr of
             Inl e \<Rightarrow> Inl (Propagated e)
           | Inr repos \<Rightarrow>
               Inr \<lparr>owner = org_or_user_name, repositories = map name repos\<rparr>))"

text \<open>
  \<open>get_github_contributors\<close>. The body of the \<open>try\<close> block is \<open>fetch_contributors\<close>;
  the loop threads the dictionary \<open>result\<close> and the records written by \<open>_LOG.error\<close>.
  The handler is \<open>except Exception\<close>: an exception that derives from \<open>BaseException\<close>
  only leaves the function, and the dictionary built so far is lost. The function's
  outcome is the first component; the second one lists the records it has logged.
\<close>

definition fetch_contributors :: "Github_client \<Rightarrow> string \<Rightarrow> exn + string list" where
  "fetch_contributors client repo_name =
     (case get_repo client repo_name of
        Inl e \<Rightarrow> Inl e
      | Inr repo \<Rightarrow> get_contributors repo)"

definition error_record :: "string \<Rightarrow> exn \<Rightarrow> string" where
  "error_record repo_name e =
     ''Error fetching contributors for '' @ repo_name @ '': '' @ exn_str e"

fun contributors_loop ::
  "Github_client \<Rightarrow> string list \<Rightarrow> (string \<rightharpoonup> string list) \<times> string list \<Rightarrow>
   (exn + (string \<rightharpoonup> string list)) \<times> string list" where
  "contributors_loop client [] (result, logged) = (Inr result, logged)"
| "contributors_loop client (repo_name # rest) (result, logged) =
     (case fetch_contributors client repo_name of
        Inr contributors \<Rightarrow>
          contributors_loop client rest (result(repo_name \<mapsto> contributors), logged)
      | Inl e \<Rightarrow>
          if is_Exception e
          then contributors_loop client rest
                 (result(repo_name \<mapsto> []), logged @ [error_record repo_name e])
          else (Inl e, logged))"

definition get_github_contributors ::
  "Github_client \<Rightarrow> string list \<Rightarrow> (exn + (string \<rightharpoonup> string list)) \<times> string list" where
  "get_github_contributors client repo_names =
     contributors_loop client repo_names (Map.empty, [])"

section \<open>tutorial\_asana/tutorial\_asana.py: the statistics cells\<close>

text \<open>
  A pandas \<open>DataFrame\<close>: its column labels, which may repeat, and its rows, a row listing
  its cells in the order of the labels, \<open>None\<close> for a missing value (\<open>None\<close>/\<open>NaN\<close>).
\<close>

record DataFrame =
  columns :: "string list"
  rows :: "string option list list"

text \<open>\<open>df.empty\<close>: an axis of length zero.\<close>

definition df_empty :: "DataFrame \<Rightarrow> bool" where
  "df_empty df = (rows df = [] \<or> columns df = [])"

text \<open>
  The cell of a row in the \<open>j\<close>-th column that carries a label (\<open>j = 0\<close> for the only
  one when the label does not repeat); missing when the row has no such cell.
\<close>

definition cell_in :: "DataFrame \<Rightarrow> string \<Rightarrow> nat \<Rightarrow> string option list \<Rightarrow> string option" where
  "cell_in df label j r =
     (let cs = map snd (filter (\<lambda>p. fst p = label) (zip (columns df) r))
      in if j < length cs then cs ! j else None)"

text \<open>
  The frame that \<open>df.groupby(by)[col].count().reset_index()\<close> returns: its labels and,
  per group, the key with one count for each selected column.
\<close>

record Summary =
  summary_columns :: "string list"
  summary_rows :: "(string \<times> nat list) list"

text \<open>
  \<open>df.groupby(by)[col].count().reset_index()\<close>. \<open>groupby\<close> raises \<open>KeyError\<close> for an
  unknown label and \<open>ValueError\<close> for a label that repeats (the grouper is then not
  one-dimensional); the selection raises \<open>KeyError\<close> for an unknown column and selects
  every column that carries the label. pandas drops the rows whose key is missing
  (\<open>dropna=True\<close> is the default), sorts the group keys, and \<open>count\<close> counts, per selected
  column, the cells of the group that are not missing. \<open>reset_index\<close> puts the keys in
  front as a column labelled \<open>by\<close>.
\<close>

definition quoted :: "string \<Rightarrow> string" where
  "quoted s = [CHR 0x27] @ s @ [CHR 0x27]"

definition group_keys :: "DataFrame \<Rightarrow> string \<Rightarrow> string list" where
  "group_keys df by = sort (remdups (List.map_filter (cell_in df by 0) (rows df)))"

definition group_count :: "DataFrame \<Rightarrow> string \<Rightarrow> string \<Rightarrow> nat \<Rightarrow> string \<Rightarrow> nat" where
  "group_count df by col j k =
     length (filter (\<lambda>r. cell_in df by 0 r = Some k \<and> cell_in df col j r \<noteq> None) (rows df))"

definition groupby_count :: "DataFrame \<Rightarrow> string \<Rightarrow> string \<Rightarrow> py_error + Summary" where
  "groupby_count df by col =
     (if count_list (columns df) by = 0 then Inl (KeyError (quoted by))
      else if 1 < count_list (columns df) by
        then Inl (ValueError (''Grouper for '' @ quoted by @ '' not 1-dimensional''))
      else if count_list (columns df) col = 0
        then Inl (KeyError (quoted (''Column not found: '' @ col)))
      else Inr \<lparr>summary_columns = by # replicate (count_list (columns df) col) col,
                summary_rows =
                  map (\<lambda>k. (k, map (\<lambda>j. group_count df by col j k)
                                  [0..<count_list (columns df) col]))
                    (group_keys df by)\<rparr>)"

text \<open>
  \<open>frame.columns = labels\<close>: pandas raises \<open>ValueError\<close> when the number of new labels
  is not the number of columns, and renames the columns of the frame in place
  otherwise.
\<close>

definition set_columns :: "Summary \<Rightarrow> string list \<Rightarrow> py_error + Summary" where
  "set_columns frame labels =
     (if length labels \<noteq> length (summary_columns frame)
      then Inl (ValueError
        (''Length mismatch: Expected axis has '' @ str_nat (length (summary_columns frame)) @
         '' elements, new values have '' @ str_nat (length labels) @ '' elements''))
      else Inr (frame\<lparr>summary_columns := labels\<rparr>))"

text \<open>What the cells print: a text, a label with a number, or a frame.\<close>

datatype printed = Text string | Count string nat | Frame Summary

text \<open>
  The notebook's global names that the statistics cells read and bind, and its output.
  A name that is not bound yet is \<open>None\<close>.
\<close>

record notebook =
  created_tasks_df :: DataFrame
  completed_tasks_df :: DataFrame
  created_tasks_comments_df :: DataFrame
  completed_tasks_comments_df :: DataFrame
  num_created_tasks :: "nat option"
  num_completed_tasks :: "nat option"
  num_comments_on_created :: "nat option"
  num_comments_on_completed :: "nat option"
  tasks_created_by_user :: "Summary option"
  stdout :: "printed list"

text \<open>The cell "Computing Statistics": four \<open>len\<close> calls and four \<open>print\<close> calls.\<close>

definition computing_statistics :: "notebook \<Rightarrow> notebook" where
  "computing_statistics nb =
     (let n1 = length (rows (created_tasks_df nb));
          n2 = length (rows (completed_tasks_df nb));
          n3 = length (rows (created_tasks_comments_df nb));
          n4 = length (rows (completed_tasks_comments_df nb))
      in nb\<lparr>num_created_tasks := Some n1,
            num_completed_tasks := Some n2,
            num_comments_on_created := Some n3,
            num_comments_on_completed := Some n4,
            stdout := stdout nb @
              [Count ''Number of tasks created in the period:'' n1,
               Count ''Number of tasks completed in the period:'' n2,
               Count ''Number of comments on created tasks:'' n3,
               Count ''Number of comments on completed tasks:'' n4]\<rparr>)"

text \<open>
  The cell "Statistics for All Users": the guard, the grouping by \<open>assignee\<close> bound to
  \<open>tasks_created_by_user\<close>, the renaming of its columns, and the two branches' \<open>print\<close>
  calls. The \<open>else\<close> branch binds nothing. A cell that raises leaves the notebook as it
  is at that statement: \<open>Inl\<close> carries the exception and that notebook. When the
  renaming raises, the name is already bound to the frame that was not renamed.
\<close>

definition no_tasks_message :: string where
  "no_tasks_message =
     ''No tasks created or '' @ [CHR 0x27] @ ''assignee'' @ [CHR 0x27] @
     '' information not available.''"

definition statistics_for_all_users :: "notebook \<Rightarrow> py_error \<times> notebook + notebook" where
  "statistics_for_all_users nb =
     (if \<not> df_empty (created_tasks_df nb) \<and> ''assignee'' \<in> set (columns (created_tasks_df nb))
      then
        (case groupby_count (created_tasks_df nb) ''assignee'' ''task_id'' of
           Inl err \<Rightarrow> Inl (err, nb)
         | Inr counted \<Rightarrow>
             (case set_columns counted [''assignee'', ''tasks_created_count''] of
                Inl err \<Rightarrow> Inl (err, nb\<lparr>tasks_created_by_user := Some counted\<rparr>)
              | Inr renamed \<Rightarrow>
                  Inr (nb\<lparr>tasks_created_by_user := Some renamed,
                          stdout := stdout nb @
                            [Text ''Tasks Created by User:'', Frame renamed]\<rparr>)))
      else
        Inr (nb\<lparr>stdout := stdout nb @ [Text no_tasks_message]\<rparr>))"

text \<open>
  The notebook after a cell has run, whether it returned or raised, and the exception
  if it raised.
\<close>

definition state_after :: "py_error \<times> notebook + notebook \<Rightarrow> notebook" where
  "state_after outcome = (case outcome of Inl (err, nb) \<Rightarrow> nb | Inr nb \<Rightarrow> nb)"

definition raised :: "py_error \<times> notebook + notebook \<Rightarrow> py_error option" where
  "raised outcome = (case outcome of Inl (err, nb) \<Rightarrow> Some err | Inr nb \<Rightarrow> None)"

text \<open>
  Whether the cell binds \<open>tasks_created_by_user\<close>: the guard passes and the grouping
  statement returns.
\<close>

definition binds_summary :: "DataFrame \<Rightarrow> bool" where
  "binds_summary df =
     (\<not> df_empty df \<and> ''assignee'' \<in> set (columns df) \<and>
      \<not> isl (groupby_count df ''assignee'' ''task_id''))"

section \<open>The window fetcher\<close>

text \<open>
  The notebook calls the window fetcher for Asana, \<open>get_tasks_by_date_range\<close> of the
  wrapper module, with \<open>status="created"\<close> and \<open>status="completed"\<close>; the code of the
  wrapper is not among the source files, and the GitHub metrics functions that would
  realise the fetcher (\<open>get_total_commits\<close>, \<open>get_total_prs\<close>, \<open>get_commits_by_person\<close> and
  their siblings) have \<open>pass\<close> bodies. The definitions of this section follow the spec.
  Timestamps are seconds since the epoch.
\<close>

text \<open>
  Modelled from the spec: the kind of an Entity (section 3); the fetcher's code is
  missing.
\<close>

datatype EntityKind = Commit | PullRequest | Issue | Task

text \<open>
  Modelled from the spec: the Entity of section 3, which the missing fetcher returns.
\<close>

record Entity =
  "identifier" :: string
  kind :: EntityKind
  actor :: "string option"
  created_at :: int
  closed_at :: "int option"
  scope :: string

text \<open>
  Modelled from the spec: the TimeWindow of section 3, which the missing fetcher takes.
\<close>

record TimeWindow =
  w_start :: int
  w_end :: int

text \<open>
  Modelled from the spec: whether the missing fetcher is asked for the entities created
  or for the entities completed in the window (section 4.2, Behavior).
\<close>

datatype QueryStatus = Created | Completed

text \<open>
  Modelled from the spec: the error taxonomy of section 7, raised by the missing fetcher.
\<close>

datatype fetch_error =
  AuthenticationError | NotFoundError string | RateLimitError | ValidationError

text \<open>
  Modelled from the spec: what the upstream source can signal to the missing fetcher for
  one scope element (section 4.2, Errors).
\<close>

datatype upstream_signal = ScopeMissing | Throttled | HandleInvalid

text \<open>
  Modelled from the spec: the error that each upstream signal becomes in the missing
  fetcher (section 4.2, Errors).
\<close>

fun signalled :: "string \<Rightarrow> upstream_signal \<Rightarrow> fetch_error" where
  "signalled s ScopeMissing = NotFoundError s"
| "signalled s Throttled = RateLimitError"
| "signalled s HandleInvalid = AuthenticationError"

type_synonym window_client = "string \<Rightarrow> EntityKind \<Rightarrow> upstream_signal + Entity list"

text \<open>
  Modelled from the spec: the relevant timestamp of the missing fetcher, \<open>created_at\<close> for
  "created" queries and \<open>closed_at\<close> for "completed" queries (section 4.2).
\<close>

fun relevant_timestamp :: "QueryStatus \<Rightarrow> Entity \<Rightarrow> int option" where
  "relevant_timestamp Created e = Some (created_at e)"
| "relevant_timestamp Completed e = closed_at e"

text \<open>
  Modelled from the spec: the half-open comparison \<open>[start, end)\<close> of section 3, applied
  by the missing fetcher to the relevant timestamp.
\<close>

definition in_window :: "TimeWindow \<Rightarrow> QueryStatus \<Rightarrow> Entity \<Rightarrow> bool" where
  "in_window w status e =
     (case relevant_timestamp status e of
        None \<Rightarrow> False
      | Some t \<Rightarrow> w_start w \<le> t \<and> t < w_end w)"

text \<open>
  Modelled from the spec: the actor filter of the missing fetcher, "if \<open>actor_filter\<close> is
  non-empty, retains only entities whose actor is in the set" (section 4.2).
\<close>

definition actor_retained :: "string list option \<Rightarrow> Entity \<Rightarrow> bool" where
  "actor_retained actor_filter e =
     (case actor_filter of
        None \<Rightarrow> True
      | Some names \<Rightarrow>
          names = [] \<or> (case actor e of None \<Rightarrow> False | Some a \<Rightarrow> a \<in> set names))"

text \<open>
  Modelled from the spec: the queries of the missing fetcher, one per scope element,
  their results concatenated; the first error is fatal for the fetch (sections 4.2
  and 7). The second component lists the scope elements for which a network call was
  made.
\<close>

fun query_scopes ::
  "window_client \<Rightarrow> EntityKind \<Rightarrow> string list \<Rightarrow> (fetch_error + Entity list) \<times> string list" where
  "query_scopes client k [] = (Inr [], [])"
| "query_scopes client k (s # ss) =
     (case client s k of
        Inl sig \<Rightarrow> (Inl (signalled s sig), [s])
      | Inr found \<Rightarrow>
          (case query_scopes client k ss of
             (Inl err, calls) \<Rightarrow> (Inl err, s # calls)
           | (Inr others, calls) \<Rightarrow> (Inr (found @ others), s # calls)))"

text \<open>
  Modelled from the spec: \<open>fetch_entities\<close> of section 4.2, whose code is missing. A
  malformed window is rejected before any network call (section 7); the entities are
  filtered by the window and by the actor filter; the result is ordered by
  \<open>created_at\<close>, ties broken by \<open>identifier\<close>.
\<close>

definition fetch_entities ::
  "window_client \<Rightarrow> string list \<Rightarrow> TimeWindow \<Rightarrow> EntityKind \<Rightarrow> QueryStatus \<Rightarrow>
   string list option \<Rightarrow> (fetch_error + Entity list) \<times> string list" where
  "fetch_entities client scopes window k status actor_filter =
     (if w_end window < w_start window then (Inl ValidationError, [])
      else
        (case query_scopes client k scopes of
           (Inl err, calls) \<Rightarrow> (Inl err, calls)
         | (Inr found, calls) \<Rightarrow>
             (Inr (sort_key (\<lambda>e. (created_at e, identifier e))
                    (filter (actor_retained actor_filter)
                       (filter (in_window window status) found))),
              calls)))"

section \<open>Example inputs\<close>

text \<open>An environment that holds a token, and exceptions of the libraries.\<close>

definition env_with_token :: "string \<rightharpoonup> string" where
  "env_with_token = [''GITHUB_ACCESS_TOKEN'' \<mapsto> ''ghp_env'']"

definition not_found :: exn where
  "not_found = Exception ''UnknownObjectException'' ''404 Not Found''"

definition rate_limited :: exn where
  "rate_limited = Exception ''RateLimitExceededException'' ''403 API rate limit exceeded''"

definition unknown_scheme :: exn where
  "unknown_scheme = Exception ''AssertionError'' ''Unknown URL scheme''"

definition interrupt :: exn where
  "interrupt = BaseException ''KeyboardInterrupt'' []"

text \<open>
  Vendor constructors that return what they were given, except that \<open>Github\<close> refuses
  a base URL with the scheme \<open>ftp\<close>.
\<close>

definition plain_sdk :: "(string, string option \<times> string) sdk" where
  "plain_sdk =
     \<lparr>Auth_Token = (\<lambda>tok. Inr tok),
      Github = (\<lambda>url auth. if url = Some ''ftp://ghe.example/api'' then Inl unknown_scheme
                            else Inr (url, auth))\<rparr>"

text \<open>
  A batch of five names; a client for which every repository but \<open>acme/gone\<close> exists,
  one for which \<open>acme/gone\<close> exists and has no contributors, and one that is interrupted
  while \<open>acme/gone\<close> is fetched.
\<close>

definition batch_names :: "string list" where
  "batch_names = [''acme/a'', ''acme/b'', ''acme/gone'', ''acme/c'', ''acme/d'']"

definition batch_client :: Github_client where
  "batch_client =
     \<lparr>get_organization = (\<lambda>n. Inl not_found),
      get_user = (\<lambda>n. Inl not_found),
      get_repo = (\<lambda>n. if n = ''acme/gone'' then Inl not_found
                        else Inr \<lparr>name = n, get_contributors = Inr [''dev-'' @ n]\<rparr>)\<rparr>"

definition bare_client :: Github_client where
  "bare_client =
     \<lparr>get_organization = (\<lambda>n. Inl not_found),
      get_user = (\<lambda>n. Inl not_found),
      get_repo = (\<lambda>n. if n = ''acme/gone'' then Inr \<lparr>name = n, get_contributors = Inr []\<rparr>
                        else Inr \<lparr>name = n, get_contributors = Inr [''dev-'' @ n]\<rparr>)\<rparr>"

definition interrupted_client :: Github_client where
  "interrupted_client =
     \<lparr>get_organization = (\<lambda>n. Inl not_found),
      get_user = (\<lambda>n. Inl not_found),
      get_repo = (\<lambda>n. if n = ''acme/gone'' then Inl interrupt
                        else Inr \<lparr>name = n, get_contributors = Inr [''dev-'' @ n]\<rparr>)\<rparr>"

text \<open>
  A client that knows the organization \<open>acme\<close> and the user \<open>octocat\<close>, and one for which
  \<open>acme\<close> resolves but the listing of its repositories is throttled.
\<close>

definition plain_repo :: "string \<Rightarrow> Repository" where
  "plain_repo n = \<lparr>name = n, get_contributors = Inr []\<rparr>"

definition acme_client :: Github_client where
  "acme_client =
     \<lparr>get_organization = (\<lambda>n. if n = ''acme''
          then Inr \<lparr>get_repos = Inr [plain_repo ''kernel'', plain_repo ''docs'']\<rparr>
          else Inl not_found),
      get_user = (\<lambda>n. if n = ''octocat''
          then Inr \<lparr>get_repos = Inr [plain_repo ''hello-world'']\<rparr>
          else Inl not_found),
      get_repo = (\<lambda>n. Inl not_found)\<rparr>"

definition throttled_client :: Github_client where
  "throttled_client =
     \<lparr>get_organization = (\<lambda>n. if n = ''acme''
          then Inr \<lparr>get_repos = Inl rate_limited\<rparr>
          else Inl not_found),
      get_user = (\<lambda>n. Inl not_found),
      get_repo = (\<lambda>n. Inl not_found)\<rparr>"

text \<open>
  Frames: no rows under given labels; two tasks, the second without assignee; the same
  two tasks in a frame whose label \<open>task_id\<close> repeats.
\<close>

definition no_rows :: "string list \<Rightarrow> DataFrame" where
  "no_rows cols = \<lparr>columns = cols, rows = []\<rparr>"

definition alice_task :: "string option list" where
  "alice_task = [Some ''1'', Some ''write'', Some ''alice'']"

definition nobody_task :: "string option list" where
  "nobody_task = [Some ''2'', Some ''review'', None]"

definition two_tasks_df :: DataFrame where
  "two_tasks_df =
     \<lparr>columns = [''task_id'', ''name'', ''assignee''], rows = [alice_task, nobody_task]\<rparr>"

definition repeated_label_df :: DataFrame where
  "repeated_label_df =
     \<lparr>columns = [''task_id'', ''task_id'', ''assignee''], rows = [alice_task, nobody_task]\<rparr>"

text \<open>A Summary left by an earlier run, and the Summary with no group.\<close>

definition stale_summary :: Summary where
  "stale_summary =
     \<lparr>summary_columns = [''assignee'', ''tasks_created_count''],
      summary_rows = [(''stale'', [7])]\<rparr>"

definition empty_summary :: Summary where
  "empty_summary =
     \<lparr>summary_columns = [''assignee'', ''tasks_created_count''], summary_rows = []\<rparr>"

text \<open>
  Notebooks: a fresh one with the two tasks; one with the same tasks, other bindings and
  earlier output; a fresh one with no tasks; one with no tasks and the stale Summary;
  a fresh one with the repeated label.
\<close>

definition unassigned_nb :: notebook where
  "unassigned_nb =
     \<lparr>created_tasks_df = two_tasks_df,
      completed_tasks_df = no_rows [],
      created_tasks_comments_df = no_rows [],
      completed_tasks_comments_df = no_rows [],
      num_created_tasks = None, num_completed_tasks = None,
      num_comments_on_created = None, num_comments_on_completed = None,
      tasks_created_by_user = None, stdout = []\<rparr>"

definition rerun_nb :: notebook where
  "rerun_nb =
     \<lparr>created_tasks_df = two_tasks_df,
      completed_tasks_df = two_tasks_df,
      created_tasks_comments_df =
        \<lparr>columns = [''task_id'', ''name'', ''assignee''], rows = [alice_task]\<rparr>,
      completed_tasks_comments_df = no_rows [],
      num_created_tasks = Some 9, num_completed_tasks = Some 9,
      num_comments_on_created = Some 9, num_comments_on_completed = Some 9,
      tasks_created_by_user = Some stale_summary, stdout = [Text ''earlier output'']\<rparr>"

definition empty_nb :: notebook where
  "empty_nb =
     \<lparr>created_tasks_df = no_rows [''task_id'', ''name'', ''assignee''],
      completed_tasks_df = no_rows [''task_id'', ''name'', ''assignee''],
      created_tasks_comments_df = no_rows [''task_id'', ''comment_text''],
      completed_tasks_comments_df = no_rows [''task_id'', ''comment_text''],
      num_created_tasks = None, num_completed_tasks = None,
      num_comments_on_created = None, num_comments_on_completed = None,
      tasks_created_by_user = None, stdout = []\<rparr>"

definition stale_nb :: notebook where
  "stale_nb = empty_nb\<lparr>tasks_created_by_user := Some stale_summary\<rparr>"

definition repeated_label_nb :: notebook where
  "repeated_label_nb = unassigned_nb\<lparr>created_tasks_df := repeated_label_df\<rparr>"

text \<open>The number of rows whose cell under a label is missing.\<close>

definition missing_count :: "DataFrame \<Rightarrow> string \<Rightarrow> nat" where
  "missing_count df label = length (filter (\<lambda>r. cell_in df label 0 r = None) (rows df))"

text \<open>
  The scenario of the spec, section 8, with a third entity that ties with the second on
  \<open>created_at\<close>; timestamps are days of January 2024. The source returns them unordered.
\<close>

definition entity_1 :: Entity where
  "entity_1 = \<lparr>identifier = ''1'', kind = Task, actor = Some ''alice'', created_at = 2,
               closed_at = None, scope = ''project''\<rparr>"

definition entity_2 :: Entity where
  "entity_2 = \<lparr>identifier = ''2'', kind = Task, actor = Some ''bob'', created_at = 5,
               closed_at = Some 6, scope = ''project''\<rparr>"

definition entity_10 :: Entity where
  "entity_10 = \<lparr>identifier = ''10'', kind = Task, actor = None, created_at = 5,
                closed_at = None, scope = ''project''\<rparr>"

definition scenario_client :: window_client where
  "scenario_client s k =
     (if s = ''project'' then Inr [entity_2, entity_1, entity_10] else Inl ScopeMissing)"

definition early_window :: TimeWindow where
  "early_window = \<lparr>w_start = 1, w_end = 4\<rparr>"

definition wide_window :: TimeWindow where
  "wide_window = \<lparr>w_start = 1, w_end = 9\<rparr>"

definition reversed_window :: TimeWindow where
  "reversed_window = \<lparr>w_start = 4, w_end = 1\<rparr>"

section \<open>Properties of the client provider\<close>

lemma truthy_Some: "truthy (Some s) = (s \<noteq> [])"
  by (simp add: truthy_def)

lemma truthy_None: "truthy None = False"
  by (simp add: truthy_def)

lemma init_explicit:
  assumes "tok \<noteq> []"
  shows "GitHubAPI_init vendor environ (Some tok) base_url =
    (case Auth_Token vendor tok of
       Inl e \<Rightarrow> Inl (Propagated e)
     | Inr auth \<Rightarrow>
         (case Github vendor (if truthy base_url then base_url else None) auth of
            Inl e \<Rightarrow> Inl (Propagated e)
          | Inr g \<Rightarrow> Inr \<lparr>access_token = tok, github = g\<rparr>))"
  using assms by (simp add: GitHubAPI_init_def py_or_def truthy_Some split: sum.splits)

lemma init_fallback:
  assumes "\<not> truthy token"
  shows "GitHubAPI_init vendor environ token base_url =
    (case environ ''GITHUB_ACCESS_TOKEN'' of
       None \<Rightarrow> Inl (ValueError token_required_message)
     | Some tok \<Rightarrow>
         if tok = [] then Inl (ValueError token_required_message)
         else GitHubAPI_init vendor Map.empty (Some tok) base_url)"
  using assms
  by (simp add: GitHubAPI_init_def py_or_def truthy_Some split: option.splits)

lemma init_ValueError_iff:
  "(\<exists>msg. GitHubAPI_init vendor environ token base_url = Inl (ValueError msg)) \<longleftrightarrow>
     \<not> truthy token \<and> \<not> truthy (environ ''GITHUB_ACCESS_TOKEN'')"
proof (cases "truthy token")
  case True
  then obtain tok where "token = Some tok" "tok \<noteq> []"
    by (cases token) (simp_all add: truthy_Some truthy_None)
  with True show ?thesis
    by (simp add: init_explicit split: sum.splits)
next
  case False
  then show ?thesis
    by (auto simp: init_fallback init_explicit truthy_Some truthy_None
        split: option.splits sum.splits)
qed

text \<open>
  C10. A non-empty explicit token takes precedence: the environment has no influence on
  the construction, and the object that is built holds that token. Without a usable
  explicit token the constructor behaves as if the value of \<open>GITHUB_ACCESS_TOKEN\<close> had
  been passed explicitly. The constructor rejects the credential, raising its
  \<open>ValueError\<close>, if and only if both the explicit token and the environment variable
  are empty or unset.
\<close>

theorem GitHubAPI_init_token_fallback:
  "(\<forall>tok. token = Some tok \<and> tok \<noteq> [] \<longrightarrow>
      GitHubAPI_init vendor environ token base_url =
        GitHubAPI_init vendor Map.empty token base_url \<and>
      (\<forall>api. GitHubAPI_init vendor environ token base_url = Inr api \<longrightarrow>
         access_token api = tok)) \<and>
   (\<not> truthy token \<longrightarrow>
      GitHubAPI_init vendor environ token base_url =
        GitHubAPI_init vendor Map.empty (environ ''GITHUB_ACCESS_TOKEN'') base_url \<and>
      (\<forall>api. GitHubAPI_init vendor environ token base_url = Inr api \<longrightarrow>
         environ ''GITHUB_ACCESS_TOKEN'' = Some (access_token api))) \<and>
   (GitHubAPI_init vendor environ token base_url = Inl (ValueError token_required_message) \<longleftrightarrow>
      \<not> truthy token \<and> \<not> truthy (environ ''GITHUB_ACCESS_TOKEN'')) \<and>
   ((\<exists>msg. GitHubAPI_init vendor environ token base_url = Inl (ValueError msg)) \<longleftrightarrow>
      \<not> truthy token \<and> \<not> truthy (environ ''GITHUB_ACCESS_TOKEN''))"
proof (intro conjI allI impI)
  fix tok
  assume "token = Some tok \<and> tok \<noteq> []"
  then show "GitHubAPI_init vendor environ token base_url =
      GitHubAPI_init vendor Map.empty token base_url"
    by (simp add: init_explicit)
next
  fix tok api
  assume "token = Some tok \<and> tok \<noteq> []"
    and "GitHubAPI_init vendor environ token base_url = Inr api"
  then show "access_token api = tok"
    by (auto simp: init_explicit split: sum.splits)
next
  assume "\<not> truthy token"
  then show "GitHubAPI_init vendor environ token base_url =
      GitHubAPI_init vendor Map.empty (environ ''GITHUB_ACCESS_TOKEN'') base_url"
    by (auto simp: init_fallback truthy_Some truthy_None split: option.splits)
next
  fix api
  assume "\<not> truthy token"
    and "GitHubAPI_init vendor environ token base_url = Inr api"
  then show "environ ''GITHUB_ACCESS_TOKEN'' = Some (access_token api)"
    by (auto simp: init_fallback init_explicit split: option.splits if_splits sum.splits)
next
  show "GitHubAPI_init vendor environ token base_url = Inl (ValueError token_required_message) \<longleftrightarrow>
      \<not> truthy token \<and> \<not> truthy (environ ''GITHUB_ACCESS_TOKEN'')"
    using init_ValueError_iff [of vendor environ token base_url]
    by (auto simp: init_fallback truthy_Some truthy_None split: option.splits)
next
  show "(\<exists>msg. GitHubAPI_init vendor environ token base_url = Inl (ValueError msg)) \<longleftrightarrow>
      \<not> truthy token \<and> \<not> truthy (environ ''GITHUB_ACCESS_TOKEN'')"
    by (rule init_ValueError_iff)
qed

theorem GitHubAPI_init_token_fallback_witness:
  "GitHubAPI_init plain_sdk env_with_token (Some ''ghp_arg'') None =
     Inr \<lparr>access_token = ''ghp_arg'', github = (None, ''ghp_arg'')\<rparr> \<and>
   GitHubAPI_init plain_sdk env_with_token None None =
     Inr \<lparr>access_token = ''ghp_env'', github = (None, ''ghp_env'')\<rparr> \<and>
   GitHubAPI_init plain_sdk env_with_token (Some []) None =
     Inr \<lparr>access_token = ''ghp_env'', github = (None, ''ghp_env'')\<rparr> \<and>
   GitHubAPI_init plain_sdk Map.empty None None = Inl (ValueError token_required_message) \<and>
   GitHubAPI_init plain_sdk Map.empty (Some []) None = Inl (ValueError token_required_message) \<and>
   GitHubAPI_init plain_sdk env_with_token (Some ''ghp_arg'') (Some ''ftp://ghe.example/api'') \<noteq>
     Inl (ValueError token_required_message)"
proof -
  have explicit: "GitHubAPI_init plain_sdk Map.empty (Some ''ghp_arg'') None =
      Inr \<lparr>access_token = ''ghp_arg'', github = (None, ''ghp_arg'')\<rparr>"
    and from_env: "GitHubAPI_init plain_sdk Map.empty (Some ''ghp_env'') None =
      Inr \<lparr>access_token = ''ghp_env'', github = (None, ''ghp_env'')\<rparr>"
    by (simp_all add: init_explicit plain_sdk_def truthy_None)
  have env: "env_with_token ''GITHUB_ACCESS_TOKEN'' = Some ''ghp_env''"
    by (simp add: env_with_token_def)
  have c1: "GitHubAPI_init plain_sdk env_with_token (Some ''ghp_arg'') None =
      GitHubAPI_init plain_sdk Map.empty (Some ''ghp_arg'') None"
    using GitHubAPI_init_token_fallback [where token = "Some ''ghp_arg''"
        and environ = env_with_token and base_url = None and vendor = plain_sdk]
    by blast
  have c2: "GitHubAPI_init plain_sdk env_with_token None None =
      GitHubAPI_init plain_sdk Map.empty (env_with_token ''GITHUB_ACCESS_TOKEN'') None"
    using GitHubAPI_init_token_fallback [where token = None
        and environ = env_with_token and base_url = None and vendor = plain_sdk]
      truthy_None
    by blast
  have c3: "GitHubAPI_init plain_sdk env_with_token (Some []) None =
      GitHubAPI_init plain_sdk Map.empty (env_with_token ''GITHUB_ACCESS_TOKEN'') None"
    using GitHubAPI_init_token_fallback [where token = "Some []"
        and environ = env_with_token and base_url = None and vendor = plain_sdk]
      truthy_Some [of "[]"]
    by blast
  have rejects: "\<And>token environ base_url.
      GitHubAPI_init plain_sdk environ token base_url = Inl (ValueError token_required_message) \<longleftrightarrow>
      \<not> truthy token \<and> \<not> truthy (environ ''GITHUB_ACCESS_TOKEN'')"
    using GitHubAPI_init_token_fallback [where vendor = plain_sdk] by blast
  have c4: "GitHubAPI_init plain_sdk Map.empty None None = Inl (ValueError token_required_message)"
    by (simp add: rejects truthy_None)
  have c5: "GitHubAPI_init plain_sdk Map.empty (Some []) None =
      Inl (ValueError token_required_message)"
    by (simp add: rejects truthy_None truthy_Some)
  have c6: "GitHubAPI_init plain_sdk env_with_token (Some ''ghp_arg'')
      (Some ''ftp://ghe.example/api'') \<noteq> Inl (ValueError token_required_message)"
    by (simp add: rejects truthy_Some)
  from c1 c2 c3 c4 c5 c6 explicit from_env env show ?thesis by simp
qed

text \<open>
  C4, as the code has it. With neither an explicit token nor one in the environment the
  constructor raises \<open>ValueError\<close> with its fixed message. With a non-empty explicit
  token it builds the credential and the client from that token, and from the base URL
  when one is given, and returns the object that holds the client; when a vendor
  constructor raises instead, its exception leaves the constructor.
\<close>

theorem GitHubAPI_init_client_or_ValueError:
  "(\<not> truthy token \<and> \<not> truthy (environ ''GITHUB_ACCESS_TOKEN'') \<longrightarrow>
      GitHubAPI_init vendor environ token base_url = Inl (ValueError token_required_message)) \<and>
   (\<forall>tok. token = Some tok \<and> tok \<noteq> [] \<longrightarrow>
      map_sum id get_client (GitHubAPI_init vendor environ token base_url) =
        (case Auth_Token vendor tok of
           Inl e \<Rightarrow> Inl (Propagated e)
         | Inr auth \<Rightarrow>
             (case Github vendor (if truthy base_url then base_url else None) auth of
                Inl e \<Rightarrow> Inl (Propagated e)
              | Inr g \<Rightarrow> Inr g)))"
  by (auto simp: init_fallback init_explicit get_client_def truthy_Some truthy_None
      split: option.splits sum.splits)

theorem GitHubAPI_init_client_or_ValueError_witness:
  "GitHubAPI_init plain_sdk Map.empty None None = Inl (ValueError token_required_message) \<and>
   map_sum id get_client
     (GitHubAPI_init plain_sdk Map.empty (Some ''ghp_arg'') (Some ''https://ghe.example/api/v3'')) =
     Inr (Some ''https://ghe.example/api/v3'', ''ghp_arg'') \<and>
   map_sum id get_client (GitHubAPI_init plain_sdk Map.empty (Some ''ghp_arg'') (Some [])) =
     Inr (None, ''ghp_arg'') \<and>
   map_sum id get_client
     (GitHubAPI_init plain_sdk Map.empty (Some ''ghp_arg'') (Some ''ftp://ghe.example/api'')) =
     Inl (Propagated unknown_scheme)"
proof -
  have rejects: "\<And>token environ base_url.
      \<not> truthy token \<and> \<not> truthy (environ ''GITHUB_ACCESS_TOKEN'') \<Longrightarrow>
      GitHubAPI_init plain_sdk environ token base_url = Inl (ValueError token_required_message)"
    using GitHubAPI_init_client_or_ValueError [where vendor = plain_sdk] by blast
  have builds: "\<And>tok environ base_url. tok \<noteq> [] \<Longrightarrow>
      map_sum id get_client (GitHubAPI_init plain_sdk environ (Some tok) base_url) =
        (case Auth_Token plain_sdk tok of
           Inl e \<Rightarrow> Inl (Propagated e)
         | Inr auth \<Rightarrow>
             (case Github plain_sdk (if truthy base_url then base_url else None) auth of
                Inl e \<Rightarrow> Inl (Propagated e)
              | Inr g \<Rightarrow> Inr g))"
    using GitHubAPI_init_client_or_ValueError [where vendor = plain_sdk] by blast
  have token_of: "\<And>tok. Auth_Token plain_sdk tok = Inr tok"
    and client_of: "\<And>url auth. Github plain_sdk url auth =
      (if url = Some ''ftp://ghe.example/api'' then Inl unknown_scheme else Inr (url, auth))"
    by (simp_all add: plain_sdk_def)
  have c1: "GitHubAPI_init plain_sdk Map.empty None None = Inl (ValueError token_required_message)"
    by (rule rejects) (simp add: truthy_None)
  have c2: "map_sum id get_client
     (GitHubAPI_init plain_sdk Map.empty (Some ''ghp_arg'') (Some ''https://ghe.example/api/v3'')) =
     Inr (Some ''https://ghe.example/api/v3'', ''ghp_arg'')"
    by (simp add: builds truthy_Some token_of client_of)
  have c3: "map_sum id get_client (GitHubAPI_init plain_sdk Map.empty (Some ''ghp_arg'') (Some [])) =
     Inr (None, ''ghp_arg'')"
    by (simp add: builds truthy_Some token_of client_of)
  have c4: "map_sum id get_client
     (GitHubAPI_init plain_sdk Map.empty (Some ''ghp_arg'') (Some ''ftp://ghe.example/api'')) =
     Inl (Propagated unknown_scheme)"
    by (simp add: builds truthy_Some token_of client_of)
  from c1 c2 c3 c4 show ?thesis by blast
qed

text \<open>
  The claim C4 as written fails: with no explicit token and a token in the environment
  the constructor does not fail, it returns a client.
\<close>

theorem GitHubAPI_init_missing_token_counterexample:
  "GitHubAPI_init plain_sdk env_with_token None None =
     Inr \<lparr>access_token = ''ghp_env'', github = (None, ''ghp_env'')\<rparr>"
  by (simp add: GitHubAPI_init_def py_or_def env_with_token_def truthy_None plain_sdk_def)

section \<open>Properties of the utility APIs\<close>

lemma contributors_loop_result:
  assumes "\<forall>n \<in> set ns. \<forall>e. fetch_contributors client n = Inl e \<longrightarrow> is_Exception e"
  shows "contributors_loop client ns (result, logged) =
     (Inr (\<lambda>n. if n \<in> set ns
            then Some (case fetch_contributors client n of Inr cs \<Rightarrow> cs | Inl e \<Rightarrow> [])
            else result n),
      logged @ concat (map (\<lambda>n. case fetch_contributors client n of
                                   Inl e \<Rightarrow> [error_record n e] | Inr cs \<Rightarrow> []) ns))"
  using assms
proof (induction ns arbitrary: result logged)
  case Nil
  then show ?case by simp
next
  case (Cons n ns)
  then have rest: "\<forall>m \<in> set ns. \<forall>e. fetch_contributors client m = Inl e \<longrightarrow> is_Exception e"
    by simp
  show ?case
  proof (cases "fetch_contributors client n")
    case (Inl e)
    with Cons.prems have "is_Exception e" by simp
    with Inl show ?thesis by (auto simp: Cons.IH [OF rest] fun_eq_iff)
  next
    case (Inr cs)
    then show ?thesis by (auto simp: Cons.IH [OF rest] fun_eq_iff)
  qed
qed

lemma contributors_loop_interrupted:
  assumes "\<exists>n \<in> set ns. \<exists>e. fetch_contributors client n = Inl e \<and> \<not> is_Exception e"
  shows "isl (fst (contributors_loop client ns (result, logged)))"
  using assms
proof (induction ns arbitrary: result logged)
  case Nil
  then show ?case by simp
next
  case (Cons n ns)
  show ?case
  proof (cases "fetch_contributors client n")
    case (Inl e)
    show ?thesis
    proof (cases "is_Exception e")
      case True
      with Inl Cons.prems
      have "\<exists>m \<in> set ns. \<exists>e. fetch_contributors client m = Inl e \<and> \<not> is_Exception e"
        by auto
      from Cons.IH [OF this] Inl True show ?thesis by simp
    next
      case False
      with Inl show ?thesis by simp
    qed
  next
    case (Inr cs)
    with Cons.prems
    have "\<exists>m \<in> set ns. \<exists>e. fetch_contributors client m = Inl e \<and> \<not> is_Exception e"
      by auto
    from Cons.IH [OF this] Inr show ?thesis by simp
  qed
qed

text \<open>
  C3, as the code has it. When every failure in the batch is an exception that derives
  from \<open>Exception\<close>, as a missing repository is, \<open>get_github_contributors\<close> returns: the
  dictionary has exactly the names of the batch as keys, a name whose fetch succeeds
  maps to its contributors, and a name whose fetch raises maps to the empty list, as a
  repository without contributors does. A failure of one name changes nothing for the
  others. The only trace of a failure is the record written to the log, one per failing
  name, in batch order; the returned dictionary carries no marker. An exception that
  does not derive from \<open>Exception\<close> leaves the function.
\<close>

theorem get_github_contributors_partial_failure:
  "((\<forall>n \<in> set repo_names. \<forall>e. fetch_contributors client n = Inl e \<longrightarrow> is_Exception e) \<longrightarrow>
      (\<exists>result.
         get_github_contributors client repo_names =
           (Inr result,
            concat (map (\<lambda>n. case fetch_contributors client n of
                               Inl e \<Rightarrow> [error_record n e] | Inr cs \<Rightarrow> []) repo_names)) \<and>
         dom result = set repo_names \<and>
         (\<forall>n \<in> set repo_names.
            result n =
              Some (case fetch_contributors client n of Inr cs \<Rightarrow> cs | Inl e \<Rightarrow> [])))) \<and>
   ((\<exists>n \<in> set repo_names. \<exists>e. fetch_contributors client n = Inl e \<and> \<not> is_Exception e) \<longrightarrow>
      isl (fst (get_github_contributors client repo_names)))"
proof (intro conjI impI)
  assume caught: "\<forall>n \<in> set repo_names. \<forall>e. fetch_contributors client n = Inl e \<longrightarrow> is_Exception e"
  let ?result = "\<lambda>n. if n \<in> set repo_names
      then Some (case fetch_contributors client n of Inr cs \<Rightarrow> cs | Inl e \<Rightarrow> [])
      else None"
  have run: "get_github_contributors client repo_names =
      (Inr ?result,
       concat (map (\<lambda>n. case fetch_contributors client n of
                          Inl e \<Rightarrow> [error_record n e] | Inr cs \<Rightarrow> []) repo_names))"
    by (simp add: get_github_contributors_def contributors_loop_result [OF caught])
  have keys: "dom ?result = set repo_names"
    by (auto simp: dom_def)
  have entries: "\<forall>n \<in> set repo_names.
      ?result n = Some (case fetch_contributors client n of Inr cs \<Rightarrow> cs | Inl e \<Rightarrow> [])"
    by simp
  from run keys entries
  show "\<exists>result.
      get_github_contributors client repo_names =
        (Inr result,
         concat (map (\<lambda>n. case fetch_contributors client n of
                            Inl e \<Rightarrow> [error_record n e] | Inr cs \<Rightarrow> []) repo_names)) \<and>
      dom result = set repo_names \<and>
      (\<forall>n \<in> set repo_names.
         result n = Some (case fetch_contributors client n of Inr cs \<Rightarrow> cs | Inl e \<Rightarrow> []))"
    by (intro exI [of _ ?result] conjI)
next
  assume "\<exists>n \<in> set repo_names. \<exists>e. fetch_contributors client n = Inl e \<and> \<not> is_Exception e"
  then show "isl (fst (get_github_contributors client repo_names))"
    unfolding get_github_contributors_def by (rule contributors_loop_interrupted)
qed

lemma batch_client_fetch:
  "fetch_contributors batch_client n = (if n = ''acme/gone'' then Inl not_found else Inr [''dev-'' @ n])"
  by (simp add: fetch_contributors_def batch_client_def)

lemma bare_client_fetch:
  "fetch_contributors bare_client n = (if n = ''acme/gone'' then Inr [] else Inr [''dev-'' @ n])"
  by (simp add: fetch_contributors_def bare_client_def)

lemma interrupted_client_fetch:
  "fetch_contributors interrupted_client n =
     (if n = ''acme/gone'' then Inl interrupt else Inr [''dev-'' @ n])"
  by (simp add: fetch_contributors_def interrupted_client_def)

theorem get_github_contributors_partial_failure_witness:
  "(\<exists>result.
      get_github_contributors batch_client batch_names =
        (Inr result, [''Error fetching contributors for acme/gone: 404 Not Found'']) \<and>
      result ''acme/a'' = Some [''dev-acme/a''] \<and>
      result ''acme/b'' = Some [''dev-acme/b''] \<and>
      result ''acme/c'' = Some [''dev-acme/c''] \<and>
      result ''acme/d'' = Some [''dev-acme/d''] \<and>
      result ''acme/gone'' = Some []) \<and>
   isl (fst (get_github_contributors interrupted_client batch_names))"
proof -
  have caught: "\<forall>n \<in> set batch_names. \<forall>e.
      fetch_contributors batch_client n = Inl e \<longrightarrow> is_Exception e"
    by (simp add: batch_client_fetch batch_names_def not_found_def)
  have stopped: "\<exists>n \<in> set batch_names. \<exists>e.
      fetch_contributors interrupted_client n = Inl e \<and> \<not> is_Exception e"
    by (simp add: interrupted_client_fetch batch_names_def interrupt_def)
  from get_github_contributors_partial_failure [of batch_names batch_client] caught
  obtain result where run: "get_github_contributors batch_client batch_names =
        (Inr result,
         concat (map (\<lambda>n. case fetch_contributors batch_client n of
                            Inl e \<Rightarrow> [error_record n e] | Inr cs \<Rightarrow> []) batch_names))"
    and entries: "\<forall>n \<in> set batch_names.
         result n =
           Some (case fetch_contributors batch_client n of Inr cs \<Rightarrow> cs | Inl e \<Rightarrow> [])"
    by blast
  have logged: "concat (map (\<lambda>n. case fetch_contributors batch_client n of
                            Inl e \<Rightarrow> [error_record n e] | Inr cs \<Rightarrow> []) batch_names) =
      [''Error fetching contributors for acme/gone: 404 Not Found'']"
    by (simp add: batch_client_fetch batch_names_def error_record_def not_found_def)
  have found: "result ''acme/a'' = Some [''dev-acme/a'']" "result ''acme/b'' = Some [''dev-acme/b'']"
    "result ''acme/c'' = Some [''dev-acme/c'']" "result ''acme/d'' = Some [''dev-acme/d'']"
    "result ''acme/gone'' = Some []"
    using entries by (simp_all add: batch_client_fetch batch_names_def)
  have interrupted: "isl (fst (get_github_contributors interrupted_client batch_names))"
    using get_github_contributors_partial_failure [of batch_names interrupted_client] stopped
    by blast
  from run logged found interrupted show ?thesis by simp
qed

text \<open>
  The claim C3 as written fails: \<open>acme/gone\<close> is missing for the first client and is a
  repository without contributors for the second, yet the two calls return the same
  dictionary. What is returned carries no warning marker for the missing identifier;
  the calls differ in what they log only.
\<close>

theorem no_marker_in_result_counterexample:
  "fetch_contributors batch_client ''acme/gone'' = Inl not_found \<and>
   fetch_contributors bare_client ''acme/gone'' = Inr [] \<and>
   fst (get_github_contributors batch_client batch_names) =
     fst (get_github_contributors bare_client batch_names)"
proof -
  have caught: "\<forall>n \<in> set batch_names. \<forall>e.
      fetch_contributors batch_client n = Inl e \<longrightarrow> is_Exception e"
    by (simp add: batch_client_fetch batch_names_def not_found_def)
  have none: "\<forall>n \<in> set batch_names. \<forall>e.
      fetch_contributors bare_client n = Inl e \<longrightarrow> is_Exception e"
    by (simp add: bare_client_fetch batch_names_def)
  have "fst (get_github_contributors batch_client batch_names) =
     fst (get_github_contributors bare_client batch_names)"
    by (simp add: get_github_contributors_def contributors_loop_result [OF caught]
        contributors_loop_result [OF none] batch_client_fetch bare_client_fetch fun_eq_iff)
  then show ?thesis
    by (simp add: batch_client_fetch bare_client_fetch)
qed

text \<open>
  C9, as the code has it. \<open>get_repo_names\<close> raises \<open>ValueError\<close> exactly when neither the
  organization lookup nor the user lookup returns. When one of them returns an owner
  (the organization first), the outcome is that of listing the owner's repositories:
  the dictionary with the input name as \<open>owner\<close> and the repository names, or the
  exception of the listing, passed on unchanged.
\<close>

theorem get_repo_names_outcomes:
  "((\<exists>msg. get_repo_names client n = Inl (ValueError msg)) \<longleftrightarrow>
      isl (get_organization client n) \<and> isl (get_user client n)) \<and>
   (isl (get_organization client n) \<and> isl (get_user client n) \<longrightarrow>
      get_repo_names client n = Inl (ValueError (neither_message n))) \<and>
   (\<forall>ownr. get_organization client n = Inr ownr \<or>
        (isl (get_organization client n) \<and> get_user client n = Inr ownr) \<longrightarrow>
      get_repo_names client n =
        (case get_repos ownr of
           Inl e \<Rightarrow> Inl (Propagated e)
         | Inr repos \<Rightarrow> Inr \<lparr>owner = n, repositories = map name repos\<rparr>))"
  by (cases "get_organization client n"; cases "get_user client n")
     (auto simp: get_repo_names_def split: sum.splits)

theorem get_repo_names_outcomes_witness:
  "get_repo_names acme_client ''acme'' =
     Inr \<lparr>owner = ''acme'', repositories = [''kernel'', ''docs'']\<rparr> \<and>
   get_repo_names acme_client ''octocat'' =
     Inr \<lparr>owner = ''octocat'', repositories = [''hello-world'']\<rparr> \<and>
   get_repo_names acme_client ''nobody'' = Inl (ValueError (neither_message ''nobody''))"
  using get_repo_names_outcomes [where client = acme_client and n = "''acme''"]
    get_repo_names_outcomes [where client = acme_client and n = "''octocat''"]
    get_repo_names_outcomes [where client = acme_client and n = "''nobody''"]
  by (simp add: acme_client_def plain_repo_def)

text \<open>
  The claim C9 as written fails: the name resolves as an organization, yet no dictionary
  is returned, because listing the repositories raises and the exception leaves the
  function.
\<close>

theorem get_repo_names_listing_counterexample:
  "\<not> isl (get_organization throttled_client ''acme'') \<and>
   get_repo_names throttled_client ''acme'' = Inl (Propagated rate_limited)"
  by (simp add: get_repo_names_def throttled_client_def)

section \<open>Properties of the statistics cells\<close>

lemma group_keys_set:
  "set (group_keys df by) = {k. \<exists>r \<in> set (rows df). cell_in df by 0 r = Some k}"
  by (force simp: group_keys_def List.map_filter_def)

lemma group_keys_distinct: "distinct (group_keys df by)"
  by (simp add: group_keys_def)

lemma group_keys_sorted: "sorted (group_keys df by)"
  by (simp add: group_keys_def)

lemma map_of_tabulate:
  "map_of (map (\<lambda>k. (k, f k)) ks) k = (if k \<in> set ks then Some (f k) else None)"
  by (induction ks) auto

lemma map_fst_tabulate: "map fst (map (\<lambda>k. (k, f k)) ks) = ks"
  by (induction ks) auto

lemma label_present:
  assumes "count_list cols label = Suc 0"
  shows "label \<in> set cols"
  using assms count_list_0_iff [of cols label] by auto

lemma groupby_count_single:
  assumes "count_list (columns df) by = Suc 0" and "count_list (columns df) col = Suc 0"
  shows "groupby_count df by col =
    Inr \<lparr>summary_columns = [by, col],
         summary_rows = map (\<lambda>k. (k, [group_count df by col 0 k])) (group_keys df by)\<rparr>"
  using assms by (simp add: groupby_count_def)

lemma set_columns_pair:
  assumes "length (summary_columns frame) = 2"
  shows "set_columns frame [a, b] = Inr (frame\<lparr>summary_columns := [a, b]\<rparr>)"
  using assms by (simp add: set_columns_def)

text \<open>
  C2, as the code has it. When the frame of created tasks has rows and exactly one
  column \<open>assignee\<close> and one column \<open>task_id\<close>, the cell binds a Summary with the two
  labels \<open>assignee\<close> and \<open>tasks_created_count\<close> and one row per assignee that occurs, in
  ascending order and without repetition; the count of a key is the number of tasks
  with exactly that assignee and a \<open>task_id\<close>. A task with no assignee is counted under
  no key: the key \<open>unassigned\<close> is present only for tasks whose assignee is that string.
\<close>

theorem statistics_for_all_users_counts_by_assignee:
  assumes "rows (created_tasks_df nb) \<noteq> []"
    and "count_list (columns (created_tasks_df nb)) ''assignee'' = 1"
    and "count_list (columns (created_tasks_df nb)) ''task_id'' = 1"
  shows "\<exists>counted.
    statistics_for_all_users nb =
      Inr (nb\<lparr>tasks_created_by_user := Some counted,
              stdout := stdout nb @ [Text ''Tasks Created by User:'', Frame counted]\<rparr>) \<and>
    summary_columns counted = [''assignee'', ''tasks_created_count''] \<and>
    sorted (map fst (summary_rows counted)) \<and> distinct (map fst (summary_rows counted)) \<and>
    (\<forall>k. map_of (summary_rows counted) k =
       (if \<exists>r \<in> set (rows (created_tasks_df nb)).
             cell_in (created_tasks_df nb) ''assignee'' 0 r = Some k
        then Some [length (filter
               (\<lambda>r. cell_in (created_tasks_df nb) ''assignee'' 0 r = Some k \<and>
                    cell_in (created_tasks_df nb) ''task_id'' 0 r \<noteq> None)
               (rows (created_tasks_df nb)))]
        else None))"
proof -
  let ?df = "created_tasks_df nb"
  let ?rows = "map (\<lambda>k. (k, [group_count ?df ''assignee'' ''task_id'' 0 k]))
                  (group_keys ?df ''assignee'')"
  let ?counted = "\<lparr>summary_columns = [''assignee'', ''tasks_created_count''],
                  summary_rows = ?rows\<rparr>"
  from assms have one_a: "count_list (columns ?df) ''assignee'' = Suc 0"
    and one_t: "count_list (columns ?df) ''task_id'' = Suc 0"
    by simp_all
  have present: "''assignee'' \<in> set (columns ?df)"
    using one_a by (rule label_present)
  with assms(1) have guard: "\<not> df_empty ?df"
    by (auto simp: df_empty_def)
  have grouped: "groupby_count ?df ''assignee'' ''task_id'' =
      Inr \<lparr>summary_columns = [''assignee'', ''task_id''], summary_rows = ?rows\<rparr>"
    using one_a one_t by (rule groupby_count_single)
  have renamed: "set_columns \<lparr>summary_columns = [''assignee'', ''task_id''], summary_rows = ?rows\<rparr>
      [''assignee'', ''tasks_created_count''] = Inr ?counted"
    by (simp add: set_columns_pair)
  have run: "statistics_for_all_users nb =
      Inr (nb\<lparr>tasks_created_by_user := Some ?counted,
              stdout := stdout nb @ [Text ''Tasks Created by User:'', Frame ?counted]\<rparr>)"
    using guard present by (simp add: statistics_for_all_users_def grouped renamed)
  have keys: "map fst ?rows = group_keys ?df ''assignee''"
    by (rule map_fst_tabulate)
  have lookup: "\<forall>k. map_of ?rows k =
       (if \<exists>r \<in> set (rows ?df). cell_in ?df ''assignee'' 0 r = Some k
        then Some [length (filter (\<lambda>r. cell_in ?df ''assignee'' 0 r = Some k \<and>
                                      cell_in ?df ''task_id'' 0 r \<noteq> None) (rows ?df))]
        else None)"
    by (simp add: map_of_tabulate group_keys_set group_count_def)
  from run keys lookup show ?thesis
    using group_keys_sorted [of ?df "''assignee''"] group_keys_distinct [of ?df "''assignee''"]
    by (intro exI [of _ ?counted]) simp
qed

lemma two_tasks_cells:
  "cell_in two_tasks_df ''assignee'' 0 alice_task = Some ''alice''"
  "cell_in two_tasks_df ''assignee'' 0 nobody_task = None"
  "cell_in two_tasks_df ''task_id'' 0 alice_task = Some ''1''"
  "cell_in two_tasks_df ''task_id'' 0 nobody_task = Some ''2''"
  by (simp_all add: cell_in_def two_tasks_df_def alice_task_def nobody_task_def)

theorem statistics_for_all_users_counts_by_assignee_witness:
  "rows (created_tasks_df unassigned_nb) \<noteq> [] \<and>
   count_list (columns (created_tasks_df unassigned_nb)) ''assignee'' = 1 \<and>
   count_list (columns (created_tasks_df unassigned_nb)) ''task_id'' = 1 \<and>
   (\<exists>counted. map_sum id tasks_created_by_user (statistics_for_all_users unassigned_nb) =
        Inr (Some counted) \<and>
      map_of (summary_rows counted) ''alice'' = Some [1] \<and>
      map_of (summary_rows counted) ''unassigned'' = None)"
proof -
  have df: "created_tasks_df unassigned_nb = two_tasks_df"
    by (simp add: unassigned_nb_def)
  have the_rows: "rows two_tasks_df = [alice_task, nobody_task]"
    by (simp add: two_tasks_df_def)
  have h1: "rows (created_tasks_df unassigned_nb) \<noteq> []"
    and h2: "count_list (columns (created_tasks_df unassigned_nb)) ''assignee'' = 1"
    and h3: "count_list (columns (created_tasks_df unassigned_nb)) ''task_id'' = 1"
    by (simp_all add: df two_tasks_df_def)
  from statistics_for_all_users_counts_by_assignee [OF h1 h2 h3]
  obtain counted where run: "statistics_for_all_users unassigned_nb =
      Inr (unassigned_nb\<lparr>tasks_created_by_user := Some counted,
              stdout := stdout unassigned_nb @ [Text ''Tasks Created by User:'', Frame counted]\<rparr>)"
    and lookup: "\<forall>k. map_of (summary_rows counted) k =
       (if \<exists>r \<in> set (rows (created_tasks_df unassigned_nb)).
             cell_in (created_tasks_df unassigned_nb) ''assignee'' 0 r = Some k
        then Some [length (filter
               (\<lambda>r. cell_in (created_tasks_df unassigned_nb) ''assignee'' 0 r = Some k \<and>
                    cell_in (created_tasks_df unassigned_nb) ''task_id'' 0 r \<noteq> None)
               (rows (created_tasks_df unassigned_nb)))]
        else None)"
    by blast
  have "map_of (summary_rows counted) ''alice'' = Some [1]"
    using lookup by (simp add: df the_rows two_tasks_cells)
  moreover have "map_of (summary_rows counted) ''unassigned'' = None"
    using lookup by (simp add: df the_rows two_tasks_cells)
  ultimately show ?thesis
    using h1 h2 h3 run by simp
qed

text \<open>
  The claim C2 as written fails: one of the two tasks has no assignee, yet the Summary
  has the single key \<open>alice\<close> and no key \<open>unassigned\<close>.
\<close>

theorem unassigned_dropped_counterexample:
  "map_sum id tasks_created_by_user (statistics_for_all_users unassigned_nb) =
     Inr (Some \<lparr>summary_columns = [''assignee'', ''tasks_created_count''],
                summary_rows = [(''alice'', [1])]\<rparr>) \<and>
   missing_count (created_tasks_df unassigned_nb) ''assignee'' = 1"
proof -
  have the_rows: "rows two_tasks_df = [alice_task, nobody_task]"
    and the_columns: "columns two_tasks_df = [''task_id'', ''name'', ''assignee'']"
    by (simp_all add: two_tasks_df_def)
  have grouped: "groupby_count two_tasks_df ''assignee'' ''task_id'' =
      Inr \<lparr>summary_columns = [''assignee'', ''task_id''], summary_rows = [(''alice'', [1])]\<rparr>"
    by (simp add: groupby_count_def group_keys_def group_count_def List.map_filter_def
        the_rows the_columns two_tasks_cells)
  have run: "map_sum id tasks_created_by_user (statistics_for_all_users unassigned_nb) =
     Inr (Some \<lparr>summary_columns = [''assignee'', ''tasks_created_count''],
                summary_rows = [(''alice'', [1])]\<rparr>)"
    by (simp add: statistics_for_all_users_def unassigned_nb_def df_empty_def grouped
        set_columns_def the_rows the_columns)
  have missing: "missing_count (created_tasks_df unassigned_nb) ''assignee'' = 1"
    by (simp add: missing_count_def unassigned_nb_def the_rows two_tasks_cells)
  from run missing show ?thesis by simp
qed

text \<open>
  A label that repeats: with two columns \<open>task_id\<close> the grouping yields three columns,
  the name is bound to that frame, and the renaming to two labels raises.
\<close>

lemma repeated_label_raises:
  "raised (statistics_for_all_users repeated_label_nb) =
     Some (ValueError
       ''Length mismatch: Expected axis has 3 elements, new values have 2 elements'') \<and>
   tasks_created_by_user (state_after (statistics_for_all_users repeated_label_nb)) =
     Some \<lparr>summary_columns = [''assignee'', ''task_id'', ''task_id''],
           summary_rows = [(''alice'', [1, 1])]\<rparr>"
proof -
  have the_rows: "rows repeated_label_df = [alice_task, nobody_task]"
    and the_columns: "columns repeated_label_df = [''task_id'', ''task_id'', ''assignee'']"
    by (simp_all add: repeated_label_df_def)
  have cells: "cell_in repeated_label_df ''assignee'' 0 alice_task = Some ''alice''"
    "cell_in repeated_label_df ''assignee'' 0 nobody_task = None"
    "cell_in repeated_label_df ''task_id'' 0 alice_task = Some ''1''"
    "cell_in repeated_label_df ''task_id'' (Suc 0) alice_task = Some ''write''"
    by (simp_all add: cell_in_def repeated_label_df_def alice_task_def nobody_task_def)
  have upto: "[0..<2] = [0, Suc 0]"
    by (simp add: upt_rec)
  have grouped: "groupby_count repeated_label_df ''assignee'' ''task_id'' =
      Inr \<lparr>summary_columns = [''assignee'', ''task_id'', ''task_id''],
           summary_rows = [(''alice'', [1, 1])]\<rparr>"
    by (simp add: groupby_count_def group_keys_def group_count_def List.map_filter_def
        the_rows the_columns cells upto numeral_2_eq_2)
  have digits: "str_nat (Suc (Suc (Suc 0))) = ''3''" "str_nat (Suc (Suc 0)) = ''2''"
    by code_simp+
  show ?thesis
    by (simp add: statistics_for_all_users_def repeated_label_nb_def unassigned_nb_def
        df_empty_def grouped set_columns_def the_rows the_columns raised_def state_after_def
        digits)
qed

text \<open>
  C5, as the code has it. For two notebooks that hold the same \<open>created_tasks_df\<close>,
  whatever their other bindings (the comment frames, an earlier Summary) and their
  earlier output, the cell raises the same exception or none and prints the same lines.
  When the cell binds the Summary (the guard passes and the grouping returns), the
  Summary is the same in both. Otherwise the cell binds nothing and the name
  \<open>tasks_created_by_user\<close> keeps what an earlier run left: the Summary read after the
  cell then depends on the notebook's earlier state.
\<close>

theorem statistics_for_all_users_same_frame:
  assumes "created_tasks_df nb1 = created_tasks_df nb2"
  shows "raised (statistics_for_all_users nb1) = raised (statistics_for_all_users nb2) \<and>
    drop (length (stdout nb1)) (stdout (state_after (statistics_for_all_users nb1))) =
      drop (length (stdout nb2)) (stdout (state_after (statistics_for_all_users nb2))) \<and>
    (binds_summary (created_tasks_df nb1) \<longrightarrow>
       tasks_created_by_user (state_after (statistics_for_all_users nb1)) \<noteq> None \<and>
       tasks_created_by_user (state_after (statistics_for_all_users nb1)) =
         tasks_created_by_user (state_after (statistics_for_all_users nb2))) \<and>
    (\<not> binds_summary (created_tasks_df nb1) \<longrightarrow>
       tasks_created_by_user (state_after (statistics_for_all_users nb1)) =
         tasks_created_by_user nb1 \<and>
       tasks_created_by_user (state_after (statistics_for_all_users nb2)) =
         tasks_created_by_user nb2)"
proof (cases "\<not> df_empty (created_tasks_df nb1) \<and>
    ''assignee'' \<in> set (columns (created_tasks_df nb1))")
  case False
  with assms show ?thesis
    by (auto simp: statistics_for_all_users_def binds_summary_def raised_def state_after_def)
next
  case guard: True
  show ?thesis
  proof (cases "groupby_count (created_tasks_df nb1) ''assignee'' ''task_id''")
    case (Inl err)
    with guard assms show ?thesis
      by (simp add: statistics_for_all_users_def binds_summary_def raised_def state_after_def)
  next
    case (Inr counted)
    show ?thesis
    proof (cases "set_columns counted [''assignee'', ''tasks_created_count'']")
      case (Inl err)
      with Inr guard assms show ?thesis
        by (simp add: statistics_for_all_users_def binds_summary_def raised_def state_after_def)
    next
      case renamed: (Inr frame)
      with Inr guard assms show ?thesis
        by (simp add: statistics_for_all_users_def binds_summary_def raised_def state_after_def)
    qed
  qed
qed

lemma two_tasks_grouped:
  "groupby_count two_tasks_df ''assignee'' ''task_id'' =
     Inr \<lparr>summary_columns = [''assignee'', ''task_id''], summary_rows = [(''alice'', [1])]\<rparr>"
proof -
  have "rows two_tasks_df = [alice_task, nobody_task]"
    and "columns two_tasks_df = [''task_id'', ''name'', ''assignee'']"
    by (simp_all add: two_tasks_df_def)
  then show ?thesis
    by (simp add: groupby_count_def group_keys_def group_count_def List.map_filter_def
        two_tasks_cells)
qed

theorem statistics_for_all_users_same_frame_witness:
  "created_tasks_df unassigned_nb = created_tasks_df rerun_nb \<and>
   tasks_created_by_user unassigned_nb \<noteq> tasks_created_by_user rerun_nb \<and>
   binds_summary (created_tasks_df unassigned_nb) \<and>
   tasks_created_by_user (state_after (statistics_for_all_users unassigned_nb)) =
     tasks_created_by_user (state_after (statistics_for_all_users rerun_nb)) \<and>
   created_tasks_df empty_nb = created_tasks_df stale_nb \<and>
   \<not> binds_summary (created_tasks_df empty_nb) \<and>
   tasks_created_by_user (state_after (statistics_for_all_users stale_nb)) =
     tasks_created_by_user stale_nb"
proof -
  have same: "created_tasks_df unassigned_nb = created_tasks_df rerun_nb"
    by (simp add: unassigned_nb_def rerun_nb_def)
  have differ: "tasks_created_by_user unassigned_nb \<noteq> tasks_created_by_user rerun_nb"
    by (simp add: unassigned_nb_def rerun_nb_def)
  have binds: "binds_summary (created_tasks_df unassigned_nb)"
    by (simp add: binds_summary_def unassigned_nb_def two_tasks_grouped)
       (simp add: two_tasks_df_def df_empty_def)
  have same_empty: "created_tasks_df empty_nb = created_tasks_df stale_nb"
    by (simp add: stale_nb_def)
  have skips: "\<not> binds_summary (created_tasks_df empty_nb)"
    by (simp add: binds_summary_def empty_nb_def no_rows_def df_empty_def)
  from statistics_for_all_users_same_frame [OF same] binds
  have c1: "tasks_created_by_user (state_after (statistics_for_all_users unassigned_nb)) =
     tasks_created_by_user (state_after (statistics_for_all_users rerun_nb))"
    by blast
  from statistics_for_all_users_same_frame [OF same_empty] skips
  have c2: "tasks_created_by_user (state_after (statistics_for_all_users stale_nb)) =
     tasks_created_by_user stale_nb"
    by blast
  from same differ binds same_empty skips c1 c2 show ?thesis by blast
qed

text \<open>
  The claim C5 as written fails: the two notebooks hold the same frame of created tasks,
  an empty one, and after the cell the Summary is unbound in the first and is the stale
  Summary of an earlier run in the second.
\<close>

theorem stale_summary_counterexample:
  "created_tasks_df empty_nb = created_tasks_df stale_nb \<and>
   tasks_created_by_user (state_after (statistics_for_all_users empty_nb)) = None \<and>
   tasks_created_by_user (state_after (statistics_for_all_users stale_nb)) = Some stale_summary"
  by (simp add: statistics_for_all_users_def stale_nb_def empty_nb_def no_rows_def df_empty_def
      state_after_def)

text \<open>
  C7, as the code has it. With no created tasks and no comments on them the two cells
  never raise: the counts are zero, the guard of the second cell fails, so it prints its
  message and binds no Summary, leaving \<open>tasks_created_by_user\<close> as it was.
\<close>

theorem empty_tasks_no_summary:
  assumes "rows (created_tasks_df nb) = []"
    and "rows (created_tasks_comments_df nb) = []"
  shows "statistics_for_all_users (computing_statistics nb) =
      Inr ((computing_statistics nb)
        \<lparr>stdout := stdout (computing_statistics nb) @ [Text no_tasks_message]\<rparr>) \<and>
    num_created_tasks (computing_statistics nb) = Some 0 \<and>
    num_comments_on_created (computing_statistics nb) = Some 0 \<and>
    tasks_created_by_user (computing_statistics nb) = tasks_created_by_user nb"
  using assms
  by (simp add: statistics_for_all_users_def computing_statistics_def df_empty_def Let_def)

theorem empty_tasks_no_summary_witness:
  "rows (created_tasks_df empty_nb) = [] \<and>
   rows (created_tasks_comments_df empty_nb) = [] \<and>
   isl (statistics_for_all_users (computing_statistics empty_nb)) = False \<and>
   num_created_tasks (computing_statistics empty_nb) = Some 0 \<and>
   tasks_created_by_user (computing_statistics empty_nb) = None"
proof -
  have h1: "rows (created_tasks_df empty_nb) = []"
    and h2: "rows (created_tasks_comments_df empty_nb) = []"
    by (simp_all add: empty_nb_def no_rows_def)
  have unbound: "tasks_created_by_user empty_nb = None"
    by (simp add: empty_nb_def)
  from empty_tasks_no_summary [OF h1 h2] h1 h2 unbound
  show ?thesis by simp
qed

text \<open>
  The claim C7 as written fails: on the notebook with no tasks the cell returns without
  binding a Summary at all, which is not the empty Summary.
\<close>

theorem empty_tasks_counterexample:
  "map_sum id tasks_created_by_user (statistics_for_all_users empty_nb) = Inr None \<and>
   map_sum id tasks_created_by_user (statistics_for_all_users empty_nb) \<noteq>
     Inr (Some empty_summary)"
  by (simp add: statistics_for_all_users_def empty_nb_def no_rows_def df_empty_def)

section \<open>Properties of the window fetcher\<close>

lemma fetch_entities_Inr:
  assumes "fst (fetch_entities client scopes window k status actor_filter) = Inr es"
  shows "\<exists>found. es = sort_key (\<lambda>e. (created_at e, identifier e))
      (filter (actor_retained actor_filter) (filter (in_window window status) found))"
  using assms
  by (auto simp: fetch_entities_def split: if_splits prod.splits sum.splits)

lemma query_scopes_not_ValidationError:
  "fst (query_scopes client k ss) \<noteq> Inl ValidationError"
proof (induction ss)
  case Nil
  then show ?case by simp
next
  case (Cons s ss)
  show ?case
  proof (cases "client s k")
    case (Inl sg)
    then show ?thesis by (cases sg) simp_all
  next
    case (Inr found)
    with Cons show ?thesis
      by (cases "query_scopes client k ss") (auto split: sum.splits)
  qed
qed

text \<open>
  C1. Every entity that \<open>fetch_entities\<close> returns has its relevant timestamp
  (\<open>created_at\<close> for a "created" query, \<open>closed_at\<close> for a "completed" query) inside the
  half-open window: at or after its start and before its end.
\<close>

theorem fetch_entities_within_window:
  assumes "fst (fetch_entities client scopes window k status actor_filter) = Inr es"
    and "e \<in> set es"
  shows "\<exists>t. relevant_timestamp status e = Some t \<and> w_start window \<le> t \<and> t < w_end window"
proof -
  from fetch_entities_Inr [OF assms(1)] assms(2)
  have "in_window window status e" by auto
  then show ?thesis
    by (cases "relevant_timestamp status e") (simp_all add: in_window_def)
qed

theorem fetch_entities_within_window_witness:
  "fst (fetch_entities scenario_client [''project''] early_window Task Created None) =
     Inr [entity_1] \<and>
   entity_1 \<in> set [entity_1] \<and>
   (\<exists>t. relevant_timestamp Created entity_1 = Some t \<and>
        w_start early_window \<le> t \<and> t < w_end early_window)"
proof -
  have h: "fst (fetch_entities scenario_client [''project''] early_window Task Created None) =
      Inr [entity_1]"
    by (simp add: fetch_entities_def scenario_client_def early_window_def in_window_def
        actor_retained_def entity_1_def entity_2_def entity_10_def)
  have m: "entity_1 \<in> set [entity_1]" by simp
  from fetch_entities_within_window [OF h m] h m show ?thesis by blast
qed

text \<open>
  C6. The list that \<open>fetch_entities\<close> returns is in ascending order of \<open>created_at\<close>, and
  entities with the same \<open>created_at\<close> are in ascending order of their identifiers as
  strings; the list is a function of the inputs alone.
\<close>

theorem fetch_entities_sorted:
  assumes "fst (fetch_entities client scopes window k status actor_filter) = Inr es"
  shows "sorted_wrt (\<lambda>a b. created_at a < created_at b \<or>
            (created_at a = created_at b \<and> identifier a \<le> identifier b)) es"
proof -
  from fetch_entities_Inr [OF assms]
  have "sorted (map (\<lambda>e. (created_at e, identifier e)) es)" by auto
  then have "sorted_wrt (\<lambda>a b. (created_at a, identifier a) \<le> (created_at b, identifier b)) es"
    by (simp add: sorted_map)
  then show ?thesis
    by (rule sorted_wrt_mono_rel [rotated]) auto
qed

theorem fetch_entities_sorted_witness:
  "fst (fetch_entities scenario_client [''project''] wide_window Task Created None) =
     Inr [entity_1, entity_10, entity_2] \<and>
   sorted_wrt (\<lambda>a b. created_at a < created_at b \<or>
            (created_at a = created_at b \<and> identifier a \<le> identifier b))
     [entity_1, entity_10, entity_2]"
proof -
  have h: "fst (fetch_entities scenario_client [''project''] wide_window Task Created None) =
      Inr [entity_1, entity_10, entity_2]"
    by (simp add: fetch_entities_def scenario_client_def wide_window_def in_window_def
        actor_retained_def entity_1_def entity_2_def entity_10_def)
  from fetch_entities_sorted [OF h] h show ?thesis by blast
qed

text \<open>
  C8. A window whose start is after its end makes \<open>fetch_entities\<close> raise
  \<open>ValidationError\<close> with no network call made; a window whose start is not after its
  end never makes it raise \<open>ValidationError\<close>.
\<close>

theorem fetch_entities_validates_window:
  "(w_start window > w_end window \<longrightarrow>
      fetch_entities client scopes window k status actor_filter = (Inl ValidationError, [])) \<and>
   (w_start window \<le> w_end window \<longrightarrow>
      fst (fetch_entities client scopes window k status actor_filter) \<noteq> Inl ValidationError)"
proof (cases "w_end window < w_start window")
  case True
  then show ?thesis by (simp add: fetch_entities_def)
next
  case False
  have "fst (fetch_entities client scopes window k status actor_filter) \<noteq> Inl ValidationError"
    using False query_scopes_not_ValidationError [of client k scopes]
    by (cases "query_scopes client k scopes") (auto simp: fetch_entities_def split: sum.splits)
  with False show ?thesis by simp
qed

theorem fetch_entities_validates_window_witness:
  "w_start reversed_window > w_end reversed_window \<and>
   fetch_entities scenario_client [''project''] reversed_window Task Created None =
     (Inl ValidationError, []) \<and>
   w_start early_window \<le> w_end early_window \<and>
   fst (fetch_entities scenario_client [''project''] early_window Task Created None) \<noteq>
     Inl ValidationError"
  using fetch_entities_validates_window [where window = reversed_window
      and client = scenario_client and scopes = "[''project'']" and k = Task
      and status = Created and actor_filter = None]
    fetch_entities_validates_window [where window = early_window
      and client = scenario_client and scopes = "[''project'']" and k = Task
      and status = Created and actor_filter = None]
  by (simp add: reversed_window_def early_window_def)

end
